theory Spec2Isabelle
  imports Main
begin

section \<open>Python values and strings\<close>

text \<open>
  The program is the single file \<^verbatim>\<open>convert.py\<close>. A token is a Python dict decoded from
  JSON; its fields hold JSON scalars. A Python \<^verbatim>\<open>str\<close> is modelled as a \<^typ>\<open>string\<close> of
  ASCII characters: the character classes below (whitespace, lower case, upper-casing,
  case-insensitive comparison) are Python's, restricted to code points below 128. Such a
  string always encodes as UTF-8; a \<^verbatim>\<open>str\<close> with a lone surrogate code point, on which
  \<^verbatim>\<open>urllib.parse.quote\<close> raises \<^verbatim>\<open>UnicodeEncodeError\<close>, is outside the model. JSON floats
  and nested containers inside a token are not modelled. The interpreter is CPython 3.11
  or later with its default settings.
\<close>

datatype pyval = PNone | PBool bool | PInt int | PStr string

datatype py_error =
    AttributeError | TypeError | ValueError | IndexError | EOFError
  | FileNotFoundError | JSONDecodeError | OSError

type_synonym token = "string \<rightharpoonup> pyval"

text \<open>Truth value testing: \<^verbatim>\<open>None\<close>, \<^verbatim>\<open>False\<close>, \<^verbatim>\<open>0\<close> and \<^verbatim>\<open>''\<close> are falsy.\<close>

fun truthy :: "pyval \<Rightarrow> bool" where
  "truthy PNone = False"
| "truthy (PBool b) = b"
| "truthy (PInt i) = (i \<noteq> 0)"
| "truthy (PStr s) = (s \<noteq> [])"

text \<open>\<^verbatim>\<open>token.get(key, default)\<close>.\<close>

definition dict_get :: "token \<Rightarrow> string \<Rightarrow> pyval \<Rightarrow> pyval" where
  "dict_get t k d = (case t k of None \<Rightarrow> d | Some v \<Rightarrow> v)"

text \<open>A step that may raise, followed by the rest of the computation.\<close>

definition bind_result :: "py_error + 'a \<Rightarrow> ('a \<Rightarrow> py_error + 'b) \<Rightarrow> py_error + 'b" where
  "bind_result r f = (case r of Inl e \<Rightarrow> Inl e | Inr x \<Rightarrow> f x)"

subsection \<open>Character classes\<close>

text \<open>
  \<^verbatim>\<open>str.isspace\<close>, \<^verbatim>\<open>str.strip\<close>, \<^verbatim>\<open>str.split\<close> and the regular expression class
  \<^verbatim>\<open>\s\<close> (on a \<^verbatim>\<open>str\<close> pattern) agree on the ASCII whitespace characters: tab, line feed,
  vertical tab, form feed, carriage return, the separators 0x1C to 0x1F, and the space.
\<close>

definition is_space :: "char \<Rightarrow> bool" where
  "is_space c = (c \<in> set [CHR 0x09, CHR 0x0A, CHR 0x0B, CHR 0x0C, CHR 0x0D,
                           CHR 0x1C, CHR 0x1D, CHR 0x1E, CHR 0x1F, CHR 0x20])"

definition islower :: "char \<Rightarrow> bool" where
  "islower c = (97 \<le> (of_char c :: nat) \<and> (of_char c :: nat) \<le> 122)"

definition isupper :: "char \<Rightarrow> bool" where
  "isupper c = (65 \<le> (of_char c :: nat) \<and> (of_char c :: nat) \<le> 90)"

definition upper :: "char \<Rightarrow> char" where
  "upper c = (if islower c then char_of ((of_char c :: nat) - 32) else c)"

definition lower :: "char \<Rightarrow> char" where
  "lower c = (if isupper c then char_of ((of_char c :: nat) + 32) else c)"

subsection \<open>String methods\<close>

text \<open>\<^verbatim>\<open>s.strip()\<close>: leading and trailing whitespace removed.\<close>

definition strip :: "string \<Rightarrow> string" where
  "strip s = rev (dropWhile is_space (rev (dropWhile is_space s)))"

text \<open>\<^verbatim>\<open>s.startswith(p)\<close>.\<close>

definition startswith :: "string \<Rightarrow> string \<Rightarrow> bool" where
  "startswith s p = (take (length p) s = p)"

text \<open>
  \<^verbatim>\<open>s.split()\<close> without a separator: the maximal runs of non-whitespace characters,
  in order. The first argument is the word read so far.
\<close>

fun split_ws_from :: "string \<Rightarrow> string \<Rightarrow> string list" where
  "split_ws_from cur [] = (if cur = [] then [] else [cur])"
| "split_ws_from cur (c # cs) =
     (if is_space c
      then (if cur = [] then split_ws_from [] cs else cur # split_ws_from [] cs)
      else split_ws_from (cur @ [c]) cs)"

definition split_ws :: "string \<Rightarrow> string list" where
  "split_ws s = split_ws_from [] s"

text \<open>\<^verbatim>\<open>s.split(sep)\<close> with a one-character separator: never an empty list.\<close>

fun split_on :: "char \<Rightarrow> string \<Rightarrow> string list" where
  "split_on sep [] = [[]]"
| "split_on sep (c # cs) =
     (if c = sep then [] # split_on sep cs
      else (case split_on sep cs of [] \<Rightarrow> [[c]] | w # ws \<Rightarrow> (c # w) # ws))"

text \<open>\<^verbatim>\<open>sep.join(words)\<close>.\<close>

fun str_join :: "string \<Rightarrow> string list \<Rightarrow> string" where
  "str_join sep [] = []"
| "str_join sep [w] = w"
| "str_join sep (w # v # ws) = w @ sep @ str_join sep (v # ws)"

text \<open>\<^verbatim>\<open>sub in s\<close> for strings.\<close>

fun contains :: "string \<Rightarrow> string \<Rightarrow> bool" where
  "contains [] sub = (sub = [])"
| "contains (c # cs) sub = (startswith (c # cs) sub \<or> contains cs sub)"

subsection \<open>Formatting\<close>

definition digit_char :: "nat \<Rightarrow> char" where
  "digit_char d = char_of (48 + d)"

fun show_nat :: "nat \<Rightarrow> string" where
  "show_nat n = (if n < 10 then [digit_char n] else show_nat (n div 10) @ [digit_char (n mod 10)])"

declare show_nat.simps [simp del]

definition show_int :: "int \<Rightarrow> string" where
  "show_int i = (if i < 0 then CHR ''-'' # show_nat (nat (- i)) else show_nat (nat i))"

text \<open>
  The conversion of an \<^verbatim>\<open>int\<close> to decimal text raises \<^verbatim>\<open>ValueError\<close> when the number has
  more digits than \<^verbatim>\<open>sys.get_int_max_str_digits()\<close>, 4300 by default.
\<close>

definition str_digits_limit :: nat where
  "str_digits_limit = 4300"

definition int_printable :: "int \<Rightarrow> bool" where
  "int_printable i = (length (show_nat (nat \<bar>i\<bar>)) \<le> str_digits_limit)"

text \<open>The text an f-string puts for \<^verbatim>\<open>{v}\<close>, that is \<^verbatim>\<open>format(v, '')\<close>.\<close>

fun py_format :: "pyval \<Rightarrow> py_error + string" where
  "py_format PNone = Inr ''None''"
| "py_format (PBool b) = Inr (if b then ''True'' else ''False'')"
| "py_format (PInt i) = (if int_printable i then Inr (show_int i) else Inl ValueError)"
| "py_format (PStr s) = Inr s"

subsection \<open>\<^verbatim>\<open>urllib.parse.quote(s, safe='')\<close>\<close>

text \<open>
  Letters, digits and \<^verbatim>\<open>_.-~\<close> are kept; every other byte becomes \<^verbatim>\<open>%XX\<close> with upper-case
  hexadecimal digits (Python 3.7 and later). \<^verbatim>\<open>quote\<close> first encodes the \<^verbatim>\<open>str\<close> as UTF-8,
  which cannot fail on the strings of this model.
\<close>

definition unreserved :: "char \<Rightarrow> bool" where
  "unreserved c = (islower c \<or> isupper c
     \<or> (48 \<le> (of_char c :: nat) \<and> (of_char c :: nat) \<le> 57)
     \<or> c \<in> set ''_.-~'')"

definition hex_digit :: "nat \<Rightarrow> char" where
  "hex_digit d = (if d < 10 then char_of (48 + d) else char_of (55 + d))"

definition quote_char :: "char \<Rightarrow> string" where
  "quote_char c = (if unreserved c then [c]
     else [CHR ''%'', hex_digit ((of_char c :: nat) div 16), hex_digit ((of_char c :: nat) mod 16)])"

definition url_quote :: "string \<Rightarrow> string" where
  "url_quote s = concat (map quote_char s)"

text \<open>\<^verbatim>\<open>quote\<close> of a value that is not a \<^verbatim>\<open>str\<close> raises \<^verbatim>\<open>TypeError\<close>.\<close>

definition py_quote :: "pyval \<Rightarrow> py_error + string" where
  "py_quote v = (case v of PStr s \<Rightarrow> Inr (url_quote s) | _ \<Rightarrow> Inl TypeError)"

text \<open>\<^verbatim>\<open>v.strip()\<close> of a value that is not a \<^verbatim>\<open>str\<close> raises \<^verbatim>\<open>AttributeError\<close>.\<close>

definition py_strip :: "pyval \<Rightarrow> py_error + string" where
  "py_strip v = (case v of PStr s \<Rightarrow> Inr (strip s) | _ \<Rightarrow> Inl AttributeError)"

section \<open>The name cleaner\<close>

subsection \<open>The regular expression\<close>

text \<open>
  The pattern of \<^verbatim>\<open>strip_issuer_from_name\<close> is
  \<^verbatim>\<open>'^' + re.escape(issuer) + r'\s*[:\-\s]\s*'\<close>, compiled with \<^verbatim>\<open>re.IGNORECASE\<close>.
  After \<^verbatim>\<open>re.escape\<close> every character of the issuer is a literal, so the compiled
  pattern is a sequence of items: one case-insensitive literal per issuer character, a greedy
  repetition of \<^verbatim>\<open>\s\<close>, one character of the class \<^verbatim>\<open>[:\-\s]\<close>, and a greedy repetition of
  \<^verbatim>\<open>\s\<close>. \<^verbatim>\<open>rmatch\<close> is the backtracking matcher anchored at the current position: a greedy
  repetition first tries to take one more character and falls back to the rest of the
  pattern. It returns the unmatched rest of the subject.
\<close>

datatype item = One "char \<Rightarrow> bool" | Many "char \<Rightarrow> bool"

fun rmatch :: "item list \<Rightarrow> string \<Rightarrow> string option" where
  "rmatch [] s = Some s"
| "rmatch (One p # items) [] = None"
| "rmatch (One p # items) (c # cs) = (if p c then rmatch items cs else None)"
| "rmatch (Many p # items) [] = rmatch items []"
| "rmatch (Many p # items) (c # cs) =
     (if p c
      then (case rmatch (Many p # items) cs of
              Some r \<Rightarrow> Some r
            | None \<Rightarrow> rmatch items (c # cs))
      else rmatch items (c # cs))"

definition literal_ignorecase :: "char \<Rightarrow> char \<Rightarrow> bool" where
  "literal_ignorecase p c = (lower c = lower p)"

definition is_separator :: "char \<Rightarrow> bool" where
  "is_separator c = (c = CHR '':'' \<or> c = CHR ''-'' \<or> is_space c)"

definition issuer_pattern :: "string \<Rightarrow> item list" where
  "issuer_pattern issuer =
     map (\<lambda>p. One (literal_ignorecase p)) issuer @ [Many is_space, One is_separator, Many is_space]"

text \<open>
  \<^verbatim>\<open>pattern.sub('', name)\<close>: the pattern starts with \<^verbatim>\<open>^\<close> and is compiled without
  \<^verbatim>\<open>re.MULTILINE\<close>, so it can match at position 0 only; a match is replaced by the empty
  string, that is, the subject is cut down to the unmatched rest.
\<close>

definition sub_at_start :: "item list \<Rightarrow> string \<Rightarrow> string" where
  "sub_at_start pat s = (case rmatch pat s of None \<Rightarrow> s | Some r \<Rightarrow> r)"

subsection \<open>\<^verbatim>\<open>strip_issuer_from_name\<close> (lines 16 to 41)\<close>

text \<open>
  \<^verbatim>\<open>re.escape\<close> of a truthy value that is not a \<^verbatim>\<open>str\<close> raises \<^verbatim>\<open>TypeError\<close>, and so does
  \<^verbatim>\<open>pattern.sub\<close> on a subject that is not a \<^verbatim>\<open>str\<close>.
\<close>

definition strip_issuer_from_name :: "pyval \<Rightarrow> pyval \<Rightarrow> py_error + string" where
  "strip_issuer_from_name name issuer =
     (if \<not> truthy name \<or> \<not> truthy issuer
      then (if truthy name then py_strip name else Inr [])
      else (case issuer of
              PStr i \<Rightarrow>
                (case name of
                   PStr n \<Rightarrow> Inr (strip (sub_at_start (issuer_pattern i) n))
                 | _ \<Rightarrow> Inl TypeError)
            | _ \<Rightarrow> Inl TypeError))"

section \<open>The URI builder\<close>

text \<open>The query parameters (lines 77 to 88), in the order they are appended.\<close>

definition query_params :: "pyval \<Rightarrow> pyval \<Rightarrow> pyval \<Rightarrow> py_error + string list" where
  "query_params secret issuer digits =
     bind_result (if truthy secret
                  then bind_result (py_format secret) (\<lambda>text. Inr [''secret='' @ text])
                  else Inr []) (\<lambda>params1.
     bind_result (if truthy issuer
                  then bind_result (py_quote issuer)
                         (\<lambda>encoded_issuer. Inr (params1 @ [''issuer='' @ encoded_issuer]))
                  else Inr params1) (\<lambda>params2.
     bind_result (if truthy digits
                  then bind_result (py_format digits) (\<lambda>text. Inr (params2 @ [''digits='' @ text]))
                  else Inr params2) (\<lambda>params3.
     Inr (params3 @ [''algorithm=SHA1'']))))"

text \<open>\<^verbatim>\<open>generate_otpauth_uri\<close> (lines 44 to 93).\<close>

definition generate_otpauth_uri :: "token \<Rightarrow> py_error + string" where
  "generate_otpauth_uri token =
     (let issuer = dict_get token ''issuer'' (PStr []);
          name = dict_get token ''name'' (PStr []);
          secret = dict_get token ''decrypted_seed'' (PStr []);
          digits = dict_get token ''digits'' (PInt 6)
      in case strip_issuer_from_name name issuer of
           Inl e \<Rightarrow> Inl e
         | Inr stripped \<Rightarrow>
             (case (if stripped = [] then py_strip name else Inr stripped) of
                Inl e \<Rightarrow> Inl e
              | Inr account \<Rightarrow>
                  (case (if truthy issuer
                         then bind_result (py_format issuer) (\<lambda>text. Inr (text @ '':'' @ account))
                         else Inr account) of
                     Inl e \<Rightarrow> Inl e
                   | Inr label \<Rightarrow>
                       (let encoded_label = url_quote label;
                            uri = ''otpauth://totp/'' @ encoded_label
                        in case query_params secret issuer digits of
                             Inl e \<Rightarrow> Inl e
                           | Inr params \<Rightarrow>
                               Inr (if params \<noteq> [] then uri @ ''?'' @ str_join ''&'' params
                                    else uri)))))"

section \<open>The batch driver\<close>

text \<open>
  \<^verbatim>\<open>convert_tokens\<close> (lines 96 to 192) is one function in the source. Its loop body is
  cut into the stages below, in the order of the source, with the line range of each.
\<close>

subsection \<open>The fallback chain (lines 121 to 143)\<close>

text \<open>
  Each stage takes the current value of the variable \<^verbatim>\<open>issuer\<close> and gives the next one.
  \<^verbatim>\<open>h.startswith\<close> on a truthy value that is not a \<^verbatim>\<open>str\<close> raises \<^verbatim>\<open>AttributeError\<close>;
  \<^verbatim>\<open>':' in name\<close> on a value that is not a \<^verbatim>\<open>str\<close> raises \<^verbatim>\<open>TypeError\<close>.
\<close>

definition check_logo :: "token \<Rightarrow> pyval \<Rightarrow> py_error + pyval" where
  "check_logo token issuer =
     (if \<not> truthy issuer
      then (let logo = dict_get token ''logo'' PNone
            in if truthy logo
               then (case logo of
                       PStr l \<Rightarrow> Inr (if \<not> startswith l ''authenticator_'' then logo else issuer)
                     | _ \<Rightarrow> Inl AttributeError)
               else Inr issuer)
      else Inr issuer)"

definition check_account_type :: "token \<Rightarrow> pyval \<Rightarrow> py_error + pyval" where
  "check_account_type token issuer =
     (if \<not> truthy issuer
      then (let account_type = dict_get token ''account_type'' PNone
            in if truthy account_type
               then (case account_type of
                       PStr a \<Rightarrow> Inr (if \<not> startswith a ''authenticator'' then account_type else issuer)
                     | _ \<Rightarrow> Inl AttributeError)
               else Inr issuer)
      else Inr issuer)"

definition parse_from_name :: "token \<Rightarrow> pyval \<Rightarrow> py_error + pyval" where
  "parse_from_name token issuer =
     (if \<not> truthy issuer
      then (case dict_get token ''name'' (PStr []) of
              PStr name \<Rightarrow>
                (if CHR '':'' \<in> set name
                 then (case split_on CHR '':'' name of
                         [] \<Rightarrow> Inl IndexError
                       | w # ws \<Rightarrow> Inr (PStr (strip w)))
                 else Inr issuer)
            | _ \<Rightarrow> Inl TypeError)
      else Inr issuer)"

definition fallback_to_name :: "token \<Rightarrow> pyval \<Rightarrow> py_error + pyval" where
  "fallback_to_name token issuer =
     (if \<not> truthy issuer
      then bind_result (py_strip (dict_get token ''name'' (PStr []))) (\<lambda>s. Inr (PStr s))
      else Inr issuer)"

definition resolve_issuer :: "token \<Rightarrow> py_error + pyval" where
  "resolve_issuer token =
     bind_result (check_logo token (dict_get token ''issuer'' PNone)) (\<lambda>issuer1.
     bind_result (check_account_type token issuer1) (\<lambda>issuer2.
     bind_result (parse_from_name token issuer2) (\<lambda>issuer3.
     fallback_to_name token issuer3)))"

subsection \<open>Title-casing (lines 145 to 150)\<close>

text \<open>
  The loop \<^verbatim>\<open>for i in range(len(words))\<close> updates the list of words in place.
  \<^verbatim>\<open>words[i][0]\<close> raises \<^verbatim>\<open>IndexError\<close> on an empty word or an index out of range.
\<close>

definition capitalize_at :: "nat \<Rightarrow> string list \<Rightarrow> py_error + string list" where
  "capitalize_at i words =
     (if i < length words
      then (case words ! i of
              [] \<Rightarrow> Inl IndexError
            | c # cs \<Rightarrow> Inr (if islower c then words[i := upper c # cs] else words))
      else Inl IndexError)"

fun capitalize_loop :: "nat list \<Rightarrow> string list \<Rightarrow> py_error + string list" where
  "capitalize_loop [] words = Inr words"
| "capitalize_loop (i # is) words =
     (case capitalize_at i words of
        Inl e \<Rightarrow> Inl e
      | Inr words' \<Rightarrow> capitalize_loop is words')"

definition title_case_issuer :: "pyval \<Rightarrow> py_error + pyval" where
  "title_case_issuer issuer =
     (if truthy issuer
      then (case issuer of
              PStr s \<Rightarrow>
                (let words = split_ws s
                 in bind_result (capitalize_loop [0..<length words] words)
                      (\<lambda>words'. Inr (PStr (str_join '' '' words'))))
            | _ \<Rightarrow> Inl AttributeError)
      else Inr issuer)"

subsection \<open>The world: files, operator input and the log\<close>

datatype level = INFO | WARN | ERROR

text \<open>
  The value found under the key \<^verbatim>\<open>decrypted_authenticator_tokens\<close>: a JSON array (its
  elements are token objects or something else), a scalar, or an object (its keys).
\<close>

datatype element = Token token | Not_a_dict

datatype tokens_value = Token_list "element list" | Scalar pyval | Object_value "string list"

text \<open>The decoded input: a JSON object, seen through the one key the program reads, or another JSON value.\<close>

datatype document = Doc_object "tokens_value option" | Doc_other

text \<open>
  What \<^verbatim>\<open>open\<close> and \<^verbatim>\<open>json.load\<close> give for a path. \<^verbatim>\<open>Unreadable\<close> stands for every failure
  other than a missing file or invalid JSON (no permission, bytes that are not UTF-8, a
  number too long to parse): the clause \<^verbatim>\<open>except Exception\<close> handles them alike, and
  \<^verbatim>\<open>OSError\<close> stands for their class.
\<close>

datatype file_state = Missing | Unreadable | Invalid_JSON | Decoded document

text \<open>
  \<^verbatim>\<open>stdin\<close> holds the lines the operator will type, without the line ends. \<^verbatim>\<open>written\<close>
  lists the writes made so far, each with its path and text. \<^verbatim>\<open>open_error\<close> says what
  \<^verbatim>\<open>open(path, 'w')\<close> raises, if anything: \<^verbatim>\<open>FileNotFoundError\<close> for a path in a missing
  directory, another \<^verbatim>\<open>OSError\<close> for a path that may not be written. A log entry is a level and a
  message; where the source formats an exception into the message, its class name stands
  for the exception's text.
\<close>

record world =
  files :: "string \<Rightarrow> file_state"
  open_error :: "string \<Rightarrow> py_error option"
  written :: "(string \<times> string) list"
  stdin :: "string list"
  log :: "(level \<times> string) list"

type_synonym 'a io = "world \<Rightarrow> (py_error + 'a) \<times> world"

definition io_return :: "'a \<Rightarrow> 'a io" where
  "io_return x w = (Inr x, w)"

definition io_raise :: "py_error \<Rightarrow> 'a io" where
  "io_raise e w = (Inl e, w)"

definition io_lift :: "py_error + 'a \<Rightarrow> 'a io" where
  "io_lift r w = (r, w)"

definition io_bind :: "'a io \<Rightarrow> ('a \<Rightarrow> 'b io) \<Rightarrow> 'b io" where
  "io_bind m f w = (case m w of (Inl e, w') \<Rightarrow> (Inl e, w') | (Inr x, w') \<Rightarrow> f x w')"

definition logger :: "level \<Rightarrow> string \<Rightarrow> unit io" where
  "logger lvl msg w = (Inr (), w\<lparr>log := log w @ [(lvl, msg)]\<rparr>)"

text \<open>
  \<^verbatim>\<open>input(prompt)\<close>: the next line, or \<^verbatim>\<open>EOFError\<close> when there is none. The prompt
  goes to the terminal, not to the log, and is not recorded.
\<close>

definition input_line :: "string io" where
  "input_line w = (case stdin w of [] \<Rightarrow> (Inl EOFError, w) | l # ls \<Rightarrow> (Inr l, w\<lparr>stdin := ls\<rparr>))"

definition write_file :: "string \<Rightarrow> string \<Rightarrow> unit io" where
  "write_file path text w =
     (case open_error w path of
        None \<Rightarrow> (Inr (), w\<lparr>written := written w @ [(path, text)]\<rparr>)
      | Some e \<Rightarrow> (Inl e, w))"

definition exception_name :: "py_error \<Rightarrow> string" where
  "exception_name e =
     (case e of
        AttributeError \<Rightarrow> ''AttributeError'' | TypeError \<Rightarrow> ''TypeError''
      | ValueError \<Rightarrow> ''ValueError''
      | IndexError \<Rightarrow> ''IndexError'' | EOFError \<Rightarrow> ''EOFError''
      | FileNotFoundError \<Rightarrow> ''FileNotFoundError'' | JSONDecodeError \<Rightarrow> ''JSONDecodeError''
      | OSError \<Rightarrow> ''OSError'')"

definition squoted :: "string \<Rightarrow> string" where
  "squoted s = [CHR 0x27] @ s @ [CHR 0x27]"

subsection \<open>Interactive mode (lines 152 to 159)\<close>

definition prompt_issuer :: "bool \<Rightarrow> token \<Rightarrow> pyval \<Rightarrow> pyval io" where
  "prompt_issuer interactive token issuer =
     (if interactive
      then io_bind (logger INFO []) (\<lambda>_.
           io_bind (io_lift (py_format (dict_get token ''name'' PNone))) (\<lambda>name_text.
           io_bind (logger WARN (''the account '' @ squoted name_text
                                  @ '' does not have an issuer'')) (\<lambda>_.
           io_bind (io_lift (py_format issuer)) (\<lambda>issuer_text.
           io_bind (logger INFO (''proposed issuer: '' @ issuer_text)) (\<lambda>_.
           io_bind input_line (\<lambda>line.
             (let user_input = strip line
              in io_return (if user_input \<noteq> [] then PStr user_input else issuer))))))))
      else io_return issuer)"

text \<open>Lines 120 to 159: the issuer that is written back into the token.\<close>

definition determine_issuer :: "bool \<Rightarrow> token \<Rightarrow> pyval io" where
  "determine_issuer interactive token =
     io_bind (io_lift (resolve_issuer token)) (\<lambda>issuer.
     io_bind (io_lift (title_case_issuer issuer)) (\<lambda>issuer'.
     prompt_issuer interactive token issuer'))"

subsection \<open>The account name (lines 164 to 174)\<close>

definition prompt_account :: "bool \<Rightarrow> token \<Rightarrow> string \<Rightarrow> (string \<times> token) io" where
  "prompt_account interactive token account =
     (if contains account '': '' \<and> interactive
      then io_bind (io_lift (py_format (dict_get token ''name'' PNone))) (\<lambda>name_text.
           io_bind (logger WARN (''the account '' @ squoted name_text
                                  @ '' may contain the issuer'')) (\<lambda>_.
           io_bind input_line (\<lambda>line.
             (let custom_accout_input = strip line
              in io_return (if custom_accout_input \<noteq> []
                            then (custom_accout_input, token(''name'' \<mapsto> PStr custom_accout_input))
                            else (account, token))))))
      else io_return (account, token))"

subsection \<open>One token (lines 119 to 177)\<close>

definition process_token :: "bool \<Rightarrow> token \<Rightarrow> string io" where
  "process_token interactive token0 =
     io_bind (determine_issuer interactive token0) (\<lambda>issuer.
       (let token = token0(''issuer'' \<mapsto> issuer);
            final_issuer = dict_get token ''issuer'' (PStr ''Unknown'')
        in io_bind (io_lift (strip_issuer_from_name (dict_get token ''name'' (PStr [])) final_issuer))
             (\<lambda>account0.
           io_bind (prompt_account interactive token account0) (\<lambda>(account, token').
           io_bind (io_lift (py_format final_issuer)) (\<lambda>issuer_text.
           io_bind (logger INFO (''processed totp - issuer: '' @ issuer_text
                                  @ '' | account: '' @ account)) (\<lambda>_.
           io_lift (generate_otpauth_uri token')))))))"

text \<open>The loop over the tokens; \<^verbatim>\<open>token.get\<close> on an element that is not a dict raises \<^verbatim>\<open>AttributeError\<close>.\<close>

fun process_tokens :: "bool \<Rightarrow> element list \<Rightarrow> string list \<Rightarrow> world \<Rightarrow> (py_error + string list) \<times> world" where
  "process_tokens interactive [] uris w = (Inr uris, w)"
| "process_tokens interactive (Not_a_dict # els) uris w = (Inl AttributeError, w)"
| "process_tokens interactive (Token t # els) uris w =
     (case process_token interactive t w of
        (Inl e, w') \<Rightarrow> (Inl e, w')
      | (Inr uri, w') \<Rightarrow> process_tokens interactive els (uris @ [uri]) w')"

subsection \<open>\<^verbatim>\<open>convert_tokens\<close> (lines 96 to 192)\<close>

fun tokens_truthy :: "tokens_value \<Rightarrow> bool" where
  "tokens_truthy (Token_list els) = (case els of [] \<Rightarrow> False | el # els' \<Rightarrow> True)"
| "tokens_truthy (Scalar v) = truthy v"
| "tokens_truthy (Object_value keys) = (keys \<noteq> [])"

text \<open>
  What \<^verbatim>\<open>for token in tokens\<close> iterates over: the elements of an array, the characters of
  a string, the keys of an object (none of the last two is a dict); another scalar is not
  iterable.
\<close>

fun iterate :: "tokens_value \<Rightarrow> py_error + element list" where
  "iterate (Token_list els) = Inr els"
| "iterate (Scalar (PStr s)) = Inr (map (\<lambda>_. Not_a_dict) s)"
| "iterate (Scalar v) = Inl TypeError"
| "iterate (Object_value keys) = Inr (map (\<lambda>_. Not_a_dict) keys)"

text \<open>\<^verbatim>\<open>json.load(open(input_file))\<close>.\<close>

definition load_json :: "string \<Rightarrow> document io" where
  "load_json input_file w =
     (case files w input_file of
        Missing \<Rightarrow> (Inl FileNotFoundError, w)
      | Unreadable \<Rightarrow> (Inl OSError, w)
      | Invalid_JSON \<Rightarrow> (Inl JSONDecodeError, w)
      | Decoded data \<Rightarrow> (Inr data, w))"

text \<open>\<^verbatim>\<open>data.get('decrypted_authenticator_tokens', [])\<close>.\<close>

definition get_tokens :: "document \<Rightarrow> py_error + tokens_value" where
  "get_tokens data =
     (case data of
        Doc_other \<Rightarrow> Inl AttributeError
      | Doc_object None \<Rightarrow> Inr (Token_list [])
      | Doc_object (Some v) \<Rightarrow> Inr v)"

text \<open>
  The body of the \<^verbatim>\<open>try\<close> statement (lines 106 to 185). The number of URIs is the length of
  a list in memory, far below the limit on the digits of a printed integer.
\<close>

definition convert_body :: "string \<Rightarrow> string \<Rightarrow> bool \<Rightarrow> unit io" where
  "convert_body input_file output_file interactive =
     io_bind (load_json input_file) (\<lambda>data.
     io_bind (io_lift (get_tokens data)) (\<lambda>tokens.
       if \<not> tokens_truthy tokens
       then logger ERROR ''No tokens found in the input file.''
       else io_bind (io_lift (iterate tokens)) (\<lambda>els.
            io_bind (process_tokens interactive els []) (\<lambda>uris.
            io_bind (write_file output_file (str_join [CHR 0x0A] uris)) (\<lambda>_.
            io_bind (logger INFO []) (\<lambda>_.
            io_bind (logger INFO (''converted '' @ show_nat (length uris) @ '' token(s)'')) (\<lambda>_.
            logger INFO (''URIs written to: '' @ output_file))))))))"

text \<open>The \<^verbatim>\<open>except\<close> clauses (lines 187 to 192): each logs an error and the function returns.\<close>

definition handle_exception :: "string \<Rightarrow> py_error \<Rightarrow> unit io" where
  "handle_exception input_file e =
     (case e of
        FileNotFoundError \<Rightarrow> logger ERROR (''error: could not find '' @ squoted input_file)
      | JSONDecodeError \<Rightarrow>
          logger ERROR (''error: invalid JSON in '' @ squoted input_file @ '': '' @ exception_name e)
      | _ \<Rightarrow> logger ERROR (''error: '' @ exception_name e))"

definition convert_tokens :: "string \<Rightarrow> string \<Rightarrow> bool \<Rightarrow> unit io" where
  "convert_tokens input_file output_file interactive w =
     (case convert_body input_file output_file interactive w of
        (Inr u, w') \<Rightarrow> (Inr u, w')
      | (Inl e, w') \<Rightarrow> handle_exception input_file e w')"

section \<open>The specification's data model and wording\<close>

text \<open>
  The definitions of this section follow the words of the specification, not the code; the
  theorems compare them with the definitions above.
\<close>

subsection \<open>Token records (specification, section 3)\<close>

text \<open>The string fields are strings or absent; \<^verbatim>\<open>digits\<close> is an integer or absent.\<close>

definition str_or_absent :: "pyval option \<Rightarrow> bool" where
  "str_or_absent v = (case v of None \<Rightarrow> True | Some (PStr s) \<Rightarrow> True | Some _ \<Rightarrow> False)"

definition int_or_absent :: "pyval option \<Rightarrow> bool" where
  "int_or_absent v = (case v of None \<Rightarrow> True | Some (PInt i) \<Rightarrow> True | Some _ \<Rightarrow> False)"

definition well_typed :: "token \<Rightarrow> bool" where
  "well_typed t =
     (str_or_absent (t ''name'') \<and> str_or_absent (t ''issuer'') \<and> str_or_absent (t ''logo'')
      \<and> str_or_absent (t ''account_type'') \<and> str_or_absent (t ''decrypted_seed'')
      \<and> int_or_absent (t ''digits''))"

text \<open>The text of a string field, empty when the field is absent.\<close>

definition str_field :: "token \<Rightarrow> string \<Rightarrow> string" where
  "str_field t k = (case t k of Some (PStr s) \<Rightarrow> s | _ \<Rightarrow> [])"

subsection \<open>Name cleaning (specification, section 4.2)\<close>

text \<open>
  After the issuer text: optional whitespace, then a colon, a hyphen or a whitespace
  character, then optional whitespace. The result is what is left of the name, if such a
  separator is there.
\<close>

definition spec_after_separator :: "string \<Rightarrow> string option" where
  "spec_after_separator rest =
     (let r = dropWhile is_space rest
      in case r of
           [] \<Rightarrow> (if rest = [] then None else Some [])
         | c # r' \<Rightarrow>
             if c = CHR '':'' \<or> c = CHR ''-'' then Some (dropWhile is_space r')
             else if r = rest then None else Some r)"


text \<open>The name without a leading issuer text (compared without regard to case) and separator.\<close>

definition spec_remove_prefix :: "string \<Rightarrow> string \<Rightarrow> string" where
  "spec_remove_prefix issuer name =
     (if length issuer \<le> length name
         \<and> map lower (take (length issuer) name) = map lower issuer
      then (case spec_after_separator (drop (length issuer) name) of
              None \<Rightarrow> name
            | Some r \<Rightarrow> r)
      else name)"

definition spec_strip_issuer :: "string \<Rightarrow> string \<Rightarrow> string" where
  "spec_strip_issuer name issuer =
     (if name = [] \<or> issuer = [] then strip name
      else strip (spec_remove_prefix issuer name))"

subsection \<open>Issuer resolution (specification, section 4.1)\<close>

text \<open>A hint field is usable when it is present, not empty, and does not start with the given prefix.\<close>

definition usable_hint :: "string \<Rightarrow> string \<Rightarrow> bool" where
  "usable_hint pre h = (h \<noteq> [] \<and> \<not> startswith h pre)"

text \<open>The first step of the chain that produces something.\<close>

fun first_nonempty :: "string list \<Rightarrow> string" where
  "first_nonempty [] = []"
| "first_nonempty (x # xs) = (if x \<noteq> [] then x else first_nonempty xs)"

definition before_colon :: "string \<Rightarrow> string" where
  "before_colon name = takeWhile (\<lambda>c. c \<noteq> CHR '':'') name"

definition spec_resolve :: "token \<Rightarrow> string" where
  "spec_resolve t =
     (let issuer = str_field t ''issuer''; logo = str_field t ''logo'';
          account_type = str_field t ''account_type''; name = str_field t ''name''
      in first_nonempty
           [issuer,
            if usable_hint ''authenticator_'' logo then logo else [],
            if usable_hint ''authenticator'' account_type then account_type else [],
            if CHR '':'' \<in> set name then strip (before_colon name) else [],
            strip name])"

text \<open>Title-casing of one word: only a lower-case first character changes.\<close>

definition capitalize_word :: "string \<Rightarrow> string" where
  "capitalize_word w = (case w of [] \<Rightarrow> [] | c # cs \<Rightarrow> if islower c then upper c # cs else c # cs)"

definition spec_title_case :: "string \<Rightarrow> string" where
  "spec_title_case s = str_join '' '' (map capitalize_word (split_ws s))"

subsection \<open>URI building (specification, section 4.3)\<close>

definition spec_label :: "token \<Rightarrow> string" where
  "spec_label t =
     (let issuer = str_field t ''issuer''; name = str_field t ''name'';
          cleaned = spec_strip_issuer name issuer;
          account = (if cleaned = [] then strip name else cleaned)
      in if issuer \<noteq> [] then issuer @ '':'' @ account else account)"

text \<open>The value of \<^verbatim>\<open>digits\<close> that the builder sees: the field, or 6 when it is absent.\<close>

definition digits_value :: "token \<Rightarrow> int" where
  "digits_value t = (case t ''digits'' of Some (PInt d) \<Rightarrow> d | _ \<Rightarrow> 6)"

definition secret_params :: "token \<Rightarrow> string list" where
  "secret_params t =
     (if str_field t ''decrypted_seed'' \<noteq> [] then [''secret='' @ str_field t ''decrypted_seed''] else [])"

definition issuer_params :: "token \<Rightarrow> string list" where
  "issuer_params t =
     (if str_field t ''issuer'' \<noteq> [] then [''issuer='' @ url_quote (str_field t ''issuer'')] else [])"

definition digits_params :: "token \<Rightarrow> string list" where
  "digits_params t = (if digits_value t \<noteq> 0 then [''digits='' @ show_int (digits_value t)] else [])"

section \<open>Example tokens and worlds\<close>

text \<open>The two tokens of the specification's URI examples.\<close>

definition tok_acme :: token where
  "tok_acme = [''issuer'' \<mapsto> PStr ''Acme'', ''name'' \<mapsto> PStr ''Acme: jsmith'',
               ''decrypted_seed'' \<mapsto> PStr ''SECRET123'', ''digits'' \<mapsto> PInt 6]"

definition tok_no_issuer :: token where
  "tok_no_issuer = [''name'' \<mapsto> PStr ''jsmith'', ''decrypted_seed'' \<mapsto> PStr ''SECRET123'',
                    ''digits'' \<mapsto> PInt 8]"

text \<open>The same account without a \<^verbatim>\<open>digits\<close> field, and with \<^verbatim>\<open>digits\<close> 0.\<close>

definition tok_no_digits :: token where
  "tok_no_digits = [''name'' \<mapsto> PStr ''jsmith'', ''decrypted_seed'' \<mapsto> PStr ''SECRET123'']"

definition tok_zero_digits :: token where
  "tok_zero_digits = [''name'' \<mapsto> PStr ''jsmith'', ''decrypted_seed'' \<mapsto> PStr ''SECRET123'',
                      ''digits'' \<mapsto> PInt 0]"

text \<open>A token whose \<^verbatim>\<open>digits\<close> is the integer \<open>10\<^sup>4\<^sup>3\<^sup>0\<^sup>0\<close>, which has 4301 decimal digits.\<close>

definition tok_huge_digits :: token where
  "tok_huge_digits = [''name'' \<mapsto> PStr ''jsmith'', ''decrypted_seed'' \<mapsto> PStr ''SECRET123'',
                      ''digits'' \<mapsto> PInt (10 ^ str_digits_limit)]"

text \<open>A token whose only field is a name; one with a JSON null for its name.\<close>

definition tok_jsmith :: token where
  "tok_jsmith = [''name'' \<mapsto> PStr ''jsmith'']"

definition tok_null_name :: token where
  "tok_null_name = [''name'' \<mapsto> PNone]"

text \<open>Tokens for the fallback chain.\<close>

definition tok_hints :: token where
  "tok_hints = [''name'' \<mapsto> PStr ''Other: jsmith'', ''logo'' \<mapsto> PStr ''acme'',
                ''account_type'' \<mapsto> PStr ''bank'']"

definition tok_explicit :: token where
  "tok_explicit = [''name'' \<mapsto> PStr ''jsmith'', ''issuer'' \<mapsto> PStr ''Acme'',
                   ''logo'' \<mapsto> PStr ''other'']"

definition tok_name_colon :: token where
  "tok_name_colon = [''name'' \<mapsto> PStr ''my bank : jsmith'',
                     ''logo'' \<mapsto> PStr ''authenticator_generic'']"

definition tok_leading_colon :: token where
  "tok_leading_colon = [''name'' \<mapsto> PStr '': jsmith'']"

text \<open>A world in which every path is in the given state and the operator types the given lines.\<close>

definition world_with :: "file_state \<Rightarrow> string list \<Rightarrow> world" where
  "world_with st lines =
     \<lparr>files = (\<lambda>_. st), open_error = (\<lambda>_. None), written = [], stdin = lines, log = []\<rparr>"

section \<open>The name cleaner: proofs\<close>

lemma strip_Nil [simp]: "strip [] = []"
  by (simp add: strip_def)


lemma dropWhile_neq_Cons: "dropWhile P cs \<noteq> c # cs"
proof
  assume "dropWhile P cs = c # cs"
  then have "length (dropWhile P cs) = Suc (length cs)" by simp
  moreover have "length (dropWhile P cs) \<le> length cs" by (rule length_dropWhile_le)
  ultimately show False by simp
qed


text \<open>The literals of the issuer match exactly the prefixes that equal it up to case.\<close>

lemma rmatch_literals:
  "rmatch (map (\<lambda>p. One (literal_ignorecase p)) ps @ items) s =
     (if length ps \<le> length s \<and> map lower (take (length ps) s) = map lower ps
      then rmatch items (drop (length ps) s) else None)"
proof (induction ps arbitrary: s)
  case Nil
  then show ?case by simp
next
  case (Cons p ps)
  show ?case
  proof (cases s)
    case Nil
    then show ?thesis by simp
  next
    case (Cons c cs)
    then show ?thesis using Cons.IH [of cs]
      by (auto simp: literal_ignorecase_def)
  qed
qed

lemma rmatch_many: "rmatch [Many p] s = Some (dropWhile p s)"
  by (induction s) auto

lemma spec_after_separator_space:
  assumes "is_space c"
  shows "spec_after_separator (c # cs) =
           (case spec_after_separator cs of
              Some r \<Rightarrow> Some r
            | None \<Rightarrow> Some (dropWhile is_space cs))"
proof (cases "dropWhile is_space cs")
  case Nil
  show ?thesis using assms by (simp add: spec_after_separator_def Nil)
next
  case (Cons d ds)
  show ?thesis using assms dropWhile_neq_Cons [of is_space cs c]
    by (auto simp: spec_after_separator_def Let_def Cons)
qed

text \<open>
  The backtracking match of \<^verbatim>\<open>\s*[:\-\s]\s*\<close>: when no colon or hyphen follows the
  whitespace, the greedy repetition gives its last character back to the class.
\<close>

lemma rmatch_separator:
  "rmatch [Many is_space, One is_separator, Many is_space] s = spec_after_separator s"
proof (induction s)
  case Nil
  then show ?case by (simp add: spec_after_separator_def)
next
  case (Cons c cs)
  show ?case
  proof (cases "is_space c")
    case False
    then show ?thesis
      by (auto simp: spec_after_separator_def rmatch_many is_separator_def)
  next
    case True
    then have "is_separator c" by (simp add: is_separator_def)
    then show ?thesis using True Cons.IH
      by (simp add: spec_after_separator_space rmatch_many split: option.splits)
  qed
qed

lemma sub_at_start_issuer:
  "sub_at_start (issuer_pattern issuer) name = spec_remove_prefix issuer name"
  by (simp add: sub_at_start_def issuer_pattern_def rmatch_literals rmatch_separator
      spec_remove_prefix_def)

lemma strip_issuer_from_name_str:
  "strip_issuer_from_name (PStr name) (PStr issuer) = Inr (spec_strip_issuer name issuer)"
  by (auto simp: strip_issuer_from_name_def spec_strip_issuer_def sub_at_start_issuer py_strip_def)



text \<open>
  C2. On strings, \<^verbatim>\<open>strip_issuer_from_name\<close> computes what the specification describes: with
  an empty name or issuer, the trimmed name; otherwise the name without a leading issuer
  text (case-insensitive, character by character, no character of the issuer being read
  as a pattern) followed by a colon, hyphen or whitespace separator with optional
  whitespace around it, trimmed. The regular expression of the code is the backtracking
  matcher \<^const>\<open>rmatch\<close>; the specification side is \<^const>\<open>spec_strip_issuer\<close>.
\<close>

theorem strip_issuer_from_name_refines:
  "strip_issuer_from_name (PStr name) (PStr issuer) = Inr (spec_strip_issuer name issuer)"
proof (cases "name = [] \<or> issuer = []")
  case True
  then show ?thesis
    by (auto simp: strip_issuer_from_name_def spec_strip_issuer_def py_strip_def)
next
  case False
  then have "strip_issuer_from_name (PStr name) (PStr issuer)
               = Inr (strip (sub_at_start (issuer_pattern issuer) name))"
    by (simp add: strip_issuer_from_name_def)
  also have "\<dots> = Inr (strip (spec_remove_prefix issuer name))"
    by (simp only: sub_at_start_issuer)
  finally show ?thesis using False by (simp add: spec_strip_issuer_def)
qed

theorem strip_issuer_from_name_refines_witness:
  "strip_issuer_from_name (PStr ''Acme: Email'') (PStr ''Acme'') = Inr ''Email''
   \<and> strip_issuer_from_name (PStr ''ACME-jsmith'') (PStr ''Acme'') = Inr ''jsmith''
   \<and> strip_issuer_from_name (PStr ''a.b: x'') (PStr ''a.b'') = Inr ''x''
   \<and> strip_issuer_from_name (PStr ''axb: x'') (PStr ''a.b'') = Inr ''axb: x''
   \<and> strip_issuer_from_name (PStr ''  Acme: Email '') (PStr []) = Inr ''Acme: Email''"
  using strip_issuer_from_name_refines [of "''Acme: Email''" "''Acme''"]
    strip_issuer_from_name_refines [of "''ACME-jsmith''" "''Acme''"]
    strip_issuer_from_name_refines [of "''a.b: x''" "''a.b''"]
    strip_issuer_from_name_refines [of "''axb: x''" "''a.b''"]
    strip_issuer_from_name_refines [of "''  Acme: Email ''" "[]"]
  by code_simp




section \<open>The issuer resolver: proofs\<close>

lemma well_typed_fields:
  assumes "well_typed t"
  shows "str_or_absent (t ''name'')" and "str_or_absent (t ''issuer'')"
    and "str_or_absent (t ''logo'')" and "str_or_absent (t ''account_type'')"
    and "str_or_absent (t ''decrypted_seed'')" and "int_or_absent (t ''digits'')"
  using assms by (simp_all add: well_typed_def)

lemma dict_get_str_field:
  assumes "str_or_absent (t k)"
  shows "truthy (dict_get t k PNone) = (str_field t k \<noteq> [])"
    and "truthy (dict_get t k PNone) \<Longrightarrow> dict_get t k PNone = PStr (str_field t k)"
    and "dict_get t k (PStr []) = PStr (str_field t k)"
  using assms
  by (auto simp: str_or_absent_def dict_get_def str_field_def split: option.splits pyval.splits)

lemma split_on_colon: "\<exists>ws. split_on CHR '':'' s = before_colon s # ws"
  by (induction s) (auto simp: before_colon_def)

lemma check_logo_str:
  assumes "well_typed t"
  shows "check_logo t issuer =
           Inr (if \<not> truthy issuer \<and> usable_hint ''authenticator_'' (str_field t ''logo'')
                then PStr (str_field t ''logo'') else issuer)"
  using dict_get_str_field [of t "''logo''", OF well_typed_fields(3) [OF assms]]
  by (auto simp: check_logo_def Let_def usable_hint_def)

lemma check_account_type_str:
  assumes "well_typed t"
  shows "check_account_type t issuer =
           Inr (if \<not> truthy issuer \<and> usable_hint ''authenticator'' (str_field t ''account_type'')
                then PStr (str_field t ''account_type'') else issuer)"
  using dict_get_str_field [of t "''account_type''", OF well_typed_fields(4) [OF assms]]
  by (auto simp: check_account_type_def Let_def usable_hint_def)

lemma parse_from_name_str:
  assumes "well_typed t"
  shows "parse_from_name t issuer =
           Inr (if \<not> truthy issuer \<and> CHR '':'' \<in> set (str_field t ''name'')
                then PStr (strip (before_colon (str_field t ''name''))) else issuer)"
proof -
  obtain ws where "split_on CHR '':'' (str_field t ''name'') = before_colon (str_field t ''name'') # ws"
    using split_on_colon by blast
  then show ?thesis
    using dict_get_str_field(3) [of t "''name''", OF well_typed_fields(1) [OF assms]]
    by (simp add: parse_from_name_def)
qed

lemma fallback_to_name_str:
  assumes "well_typed t"
  shows "fallback_to_name t issuer =
           Inr (if \<not> truthy issuer then PStr (strip (str_field t ''name'')) else issuer)"
  using dict_get_str_field(3) [of t "''name''", OF well_typed_fields(1) [OF assms]]
  by (simp add: fallback_to_name_def py_strip_def bind_result_def)

lemma resolve_issuer_well_typed:
  assumes "well_typed t"
  shows "resolve_issuer t = Inr (PStr (spec_resolve t))"
proof (cases "str_field t ''issuer'' = []")
  case True
  then have "\<not> truthy (dict_get t ''issuer'' PNone)"
    using dict_get_str_field(1) [of t "''issuer''", OF well_typed_fields(2) [OF assms]] by simp
  then show ?thesis using True
    by (simp add: resolve_issuer_def bind_result_def check_logo_str [OF assms]
        check_account_type_str [OF assms] parse_from_name_str [OF assms]
        fallback_to_name_str [OF assms] spec_resolve_def Let_def)
next
  case False
  then have "truthy (dict_get t ''issuer'' PNone)"
    and "dict_get t ''issuer'' PNone = PStr (str_field t ''issuer'')"
    using dict_get_str_field(1,2) [of t "''issuer''", OF well_typed_fields(2) [OF assms]]
    by simp_all
  then show ?thesis using False
    by (simp add: resolve_issuer_def bind_result_def check_logo_str [OF assms]
        check_account_type_str [OF assms] parse_from_name_str [OF assms]
        fallback_to_name_str [OF assms] spec_resolve_def Let_def)
qed

text \<open>
  C1. For a token of the data model the code's sequence of \<^verbatim>\<open>if not issuer\<close> stages gives
  the first candidate that is not empty, in the order: the explicit issuer; the logo, unless
  it starts with \<^verbatim>\<open>authenticator_\<close>; the account type, unless it starts with
  \<^verbatim>\<open>authenticator\<close>; the trimmed part of the name before its first colon; the trimmed name.
  In particular a non-empty explicit issuer is the result as it stands, and without it a
  usable logo wins over a usable account type.
\<close>

theorem resolve_issuer_chain:
  assumes "well_typed t"
  shows "resolve_issuer t = Inr (PStr (spec_resolve t))
         \<and> (str_field t ''issuer'' \<noteq> [] \<longrightarrow> resolve_issuer t = Inr (PStr (str_field t ''issuer'')))
         \<and> (str_field t ''issuer'' = [] \<and> usable_hint ''authenticator_'' (str_field t ''logo'')
              \<and> usable_hint ''authenticator'' (str_field t ''account_type'')
            \<longrightarrow> resolve_issuer t = Inr (PStr (str_field t ''logo'')))"
proof -
  have chain: "resolve_issuer t = Inr (PStr (spec_resolve t))"
    using assms by (rule resolve_issuer_well_typed)
  have "str_field t ''issuer'' \<noteq> [] \<longrightarrow> spec_resolve t = str_field t ''issuer''"
    by (simp add: spec_resolve_def)
  moreover have "str_field t ''issuer'' = [] \<and> usable_hint ''authenticator_'' (str_field t ''logo'')
                 \<longrightarrow> spec_resolve t = str_field t ''logo''"
    by (simp add: spec_resolve_def usable_hint_def)
  ultimately show ?thesis using chain by simp
qed

theorem resolve_issuer_chain_witness:
  "well_typed tok_hints \<and> resolve_issuer tok_hints = Inr (PStr ''acme'')
   \<and> well_typed tok_explicit \<and> resolve_issuer tok_explicit = Inr (PStr ''Acme'')
   \<and> well_typed tok_name_colon \<and> resolve_issuer tok_name_colon = Inr (PStr ''my bank'')
   \<and> well_typed tok_jsmith \<and> resolve_issuer tok_jsmith = Inr (PStr ''jsmith'')"
  using resolve_issuer_chain [of tok_hints] resolve_issuer_chain [of tok_explicit]
    resolve_issuer_chain [of tok_name_colon] resolve_issuer_chain [of tok_jsmith]
  by code_simp

text \<open>
  C6, as the claim states it, fails: the name \<^verbatim>\<open>": jsmith"\<close> contains a colon and the token has
  no issuer, logo or account type, yet the chain does not give the (empty) text before the
  colon but the whole trimmed name, by its last step.
\<close>

theorem name_before_colon_counterexample:
  "CHR '':'' \<in> set (str_field tok_leading_colon ''name'')
   \<and> strip (before_colon (str_field tok_leading_colon ''name'')) = []
   \<and> resolve_issuer tok_leading_colon = Inr (PStr '': jsmith'')"
  by code_simp

text \<open>
  C6, amended. For a token of the data model with no explicit issuer and no usable logo or
  account type, whose name contains a colon, the chain gives the trimmed text before the
  first colon when that is not empty, and the whole trimmed name when it is empty.
\<close>

theorem resolve_issuer_name_colon:
  assumes "well_typed t" and "str_field t ''issuer'' = []"
    and "\<not> usable_hint ''authenticator_'' (str_field t ''logo'')"
    and "\<not> usable_hint ''authenticator'' (str_field t ''account_type'')"
    and "CHR '':'' \<in> set (str_field t ''name'')"
  shows "resolve_issuer t =
           Inr (PStr (if strip (before_colon (str_field t ''name'')) \<noteq> []
                      then strip (before_colon (str_field t ''name''))
                      else strip (str_field t ''name'')))"
proof -
  have "spec_resolve t =
          (if strip (before_colon (str_field t ''name'')) \<noteq> []
           then strip (before_colon (str_field t ''name''))
           else strip (str_field t ''name''))"
    using assms(2-5) by (simp add: spec_resolve_def Let_def)
  then show ?thesis using resolve_issuer_well_typed [OF assms(1)] by simp
qed

theorem resolve_issuer_name_colon_witness:
  "well_typed tok_name_colon \<and> str_field tok_name_colon ''issuer'' = []
   \<and> CHR '':'' \<in> set (str_field tok_name_colon ''name'')
   \<and> resolve_issuer tok_name_colon = Inr (PStr ''my bank'')
   \<and> well_typed tok_leading_colon
   \<and> resolve_issuer tok_leading_colon = Inr (PStr '': jsmith'')"
  using resolve_issuer_name_colon [of tok_name_colon] resolve_issuer_name_colon [of tok_leading_colon]
  by code_simp

section \<open>Title-casing: proofs\<close>

lemma split_ws_from_nonempty: "list_all (\<lambda>w. w \<noteq> []) (split_ws_from cur s)"
  by (induction s arbitrary: cur) auto

lemma capitalize_at_length:
  assumes "w \<noteq> []"
  shows "capitalize_at (length done) (done @ w # todo) = Inr (done @ capitalize_word w # todo)"
  using assms by (cases w) (auto simp: capitalize_at_def capitalize_word_def)

text \<open>The loop invariant: the words before index \<open>i\<close> are capitalized, the others untouched.\<close>

lemma capitalize_loop_append:
  "list_all (\<lambda>w. w \<noteq> []) todo \<Longrightarrow>
     capitalize_loop [length done..<length done + length todo] (done @ todo)
       = Inr (done @ map capitalize_word todo)"
proof (induction todo arbitrary: "done")
  case Nil
  then show ?case by simp
next
  case (Cons w todo)
  have idx: "[length done..<length done + length (w # todo)]
               = length done # [length (done @ [capitalize_word w])
                                 ..<length (done @ [capitalize_word w]) + length todo]"
    by (subst upt_rec) simp
  from Cons.prems have w: "w \<noteq> []" and rest: "list_all (\<lambda>w. w \<noteq> []) todo" by simp_all
  show ?case
    unfolding idx
    using Cons.IH [OF rest, of "done @ [capitalize_word w]"]
      capitalize_at_length [OF w, of "done" todo]
    by simp
qed

lemma capitalize_loop_all:
  "list_all (\<lambda>w. w \<noteq> []) ws \<Longrightarrow> capitalize_loop [0..<length ws] ws = Inr (map capitalize_word ws)"
  using capitalize_loop_append [of ws "[]"] by simp

lemma title_case_issuer_str: "title_case_issuer (PStr s) = Inr (PStr (spec_title_case s))"
proof (cases "s = []")
  case True
  then show ?thesis
    by (simp add: title_case_issuer_def spec_title_case_def split_ws_def)
next
  case False
  have "list_all (\<lambda>w. w \<noteq> []) (split_ws s)"
    unfolding split_ws_def by (rule split_ws_from_nonempty)
  then have "capitalize_loop [0..<length (split_ws s)] (split_ws s)
               = Inr (map capitalize_word (split_ws s))"
    by (rule capitalize_loop_all)
  then show ?thesis using False
    by (simp add: title_case_issuer_def spec_title_case_def bind_result_def Let_def)
qed

text \<open>
  C5. Title-casing an issuer string never fails and gives the words of the string (split at
  whitespace), each with a lower-case first character turned to upper case and nothing
  else changed, joined by single spaces. The code's loop over the indices with its
  in-place update is \<^const>\<open>capitalize_loop\<close>; the word-by-word description is
  \<^const>\<open>spec_title_case\<close>.
\<close>

theorem title_case_issuer_words:
  "title_case_issuer (PStr s) = Inr (PStr (str_join '' '' (map capitalize_word (split_ws s))))"
proof -
  have "title_case_issuer (PStr s) = Inr (PStr (spec_title_case s))"
    by (rule title_case_issuer_str)
  then show ?thesis by (simp add: spec_title_case_def)
qed

theorem title_case_issuer_words_witness:
  "title_case_issuer (PStr ''my bank'') = Inr (PStr ''My Bank'')
   \<and> title_case_issuer (PStr ''My BANK'') = Inr (PStr ''My BANK'')
   \<and> title_case_issuer (PStr ''  the  1st bANK '') = Inr (PStr ''The 1st BANK'')"
  using title_case_issuer_words [of "''my bank''"] title_case_issuer_words [of "''My BANK''"]
    title_case_issuer_words [of "''  the  1st bANK ''"]
  by code_simp

section \<open>The URI builder: proofs\<close>

text \<open>Small numbers are within the limit; \<open>10\<^sup>k\<close> has \<open>k + 1\<close> digits.\<close>

lemma int_printable_0: "int_printable 0"
  by code_simp

lemma int_printable_6: "int_printable 6"
  by code_simp

lemma length_show_nat_power: "length (show_nat (10 ^ k)) = Suc k"
proof (induction k)
  case 0
  show ?case by (subst show_nat.simps) simp
next
  case (Suc k)
  have "\<not> (10 :: nat) * 10 ^ k < 10" by simp
  then have "show_nat (10 ^ Suc k) = show_nat (10 ^ k) @ [digit_char ((10 * 10 ^ k) mod 10)]"
    by (subst show_nat.simps) simp
  then show ?case using Suc.IH by simp
qed

lemma not_int_printable_limit: "\<not> int_printable (10 ^ str_digits_limit)"
proof -
  have "length (show_nat (10 ^ str_digits_limit)) = Suc str_digits_limit"
    by (rule length_show_nat_power)
  then show ?thesis by (simp add: int_printable_def nat_power_eq)
qed

lemma query_params_str:
  "query_params (PStr secret) (PStr issuer) (PInt d) =
     (if int_printable d
      then Inr ((if secret \<noteq> [] then [''secret='' @ secret] else [])
                @ (if issuer \<noteq> [] then [''issuer='' @ url_quote issuer] else [])
                @ (if d \<noteq> 0 then [''digits='' @ show_int d] else [])
                @ [''algorithm=SHA1''])
      else Inl ValueError)"
  using int_printable_0
  by (auto simp: query_params_def py_quote_def bind_result_def)

lemma dict_get_digits:
  assumes "well_typed t"
  shows "dict_get t ''digits'' (PInt 6) = PInt (digits_value t)"
  using well_typed_fields(6) [OF assms]
  by (auto simp: int_or_absent_def dict_get_def digits_value_def split: option.splits pyval.splits)

lemma query_params_well_typed:
  assumes "well_typed t"
  shows "query_params (dict_get t ''decrypted_seed'' (PStr [])) (dict_get t ''issuer'' (PStr []))
           (dict_get t ''digits'' (PInt 6))
         = (if int_printable (digits_value t)
            then Inr (secret_params t @ issuer_params t @ digits_params t @ [''algorithm=SHA1''])
            else Inl ValueError)"
  using dict_get_str_field(3) [of t "''decrypted_seed''", OF well_typed_fields(5) [OF assms]]
    dict_get_str_field(3) [of t "''issuer''", OF well_typed_fields(2) [OF assms]]
    dict_get_digits [OF assms]
  by (simp add: query_params_str secret_params_def issuer_params_def digits_params_def)

text \<open>
  A token of the data model gets its URI unless the digits value is too long to print,
  the one step that can raise on such a token.
\<close>

lemma generate_otpauth_uri_well_typed:
  assumes "well_typed t"
  shows "generate_otpauth_uri t =
           (if int_printable (digits_value t)
            then Inr (''otpauth://totp/'' @ url_quote (spec_label t) @ ''?''
                      @ str_join ''&'' (secret_params t @ issuer_params t @ digits_params t
                                         @ [''algorithm=SHA1'']))
            else Inl ValueError)"
proof -
  have i: "dict_get t ''issuer'' (PStr []) = PStr (str_field t ''issuer'')"
    using dict_get_str_field(3) [of t "''issuer''", OF well_typed_fields(2) [OF assms]] .
  have n: "dict_get t ''name'' (PStr []) = PStr (str_field t ''name'')"
    using dict_get_str_field(3) [of t "''name''", OF well_typed_fields(1) [OF assms]] .
  let ?params = "query_params (dict_get t ''decrypted_seed'' (PStr []))
                   (dict_get t ''issuer'' (PStr [])) (dict_get t ''digits'' (PInt 6))"
  have "generate_otpauth_uri t =
          (case ?params of
             Inl e \<Rightarrow> Inl e
           | Inr params \<Rightarrow>
               Inr (if params \<noteq> []
                    then (''otpauth://totp/'' @ url_quote (spec_label t)) @ ''?''
                         @ str_join ''&'' params
                    else ''otpauth://totp/'' @ url_quote (spec_label t)))"
    by (auto simp: generate_otpauth_uri_def Let_def i n strip_issuer_from_name_str py_strip_def
        spec_label_def bind_result_def split: sum.splits)
  then show ?thesis
    by (simp add: query_params_well_typed [OF assms])
qed

lemma show_int_6: "show_int 6 = ''6''"
  by code_simp

text \<open>
  C3. For a token of the data model the URI is the scheme and the percent-encoded label,
  a question mark, and the parameters joined by \<^verbatim>\<open>&\<close> in the order secret, issuer, digits,
  each there only when its value is truthy (the secret and the issuer not empty, the digits
  value, 6 when the field is absent, not 0), and then always \<^verbatim>\<open>algorithm=SHA1\<close>. This is
  the URI of every such token that gets one: the only token of the data model without a
  URI is one whose digits value has more than 4300 digits, where the conversion to text
  raises \<^verbatim>\<open>ValueError\<close>.
\<close>

theorem generate_otpauth_uri_params:
  assumes "well_typed t"
  shows "generate_otpauth_uri t =
           (if int_printable (digits_value t)
            then Inr (''otpauth://totp/'' @ url_quote (spec_label t) @ ''?''
                      @ str_join ''&''
                          ((if str_field t ''decrypted_seed'' \<noteq> []
                            then [''secret='' @ str_field t ''decrypted_seed''] else [])
                           @ (if str_field t ''issuer'' \<noteq> []
                              then [''issuer='' @ url_quote (str_field t ''issuer'')] else [])
                           @ (if digits_value t \<noteq> 0
                              then [''digits='' @ show_int (digits_value t)] else [])
                           @ [''algorithm=SHA1'']))
            else Inl ValueError)"
  using generate_otpauth_uri_well_typed [OF assms]
  by (simp add: secret_params_def issuer_params_def digits_params_def)

theorem generate_otpauth_uri_params_witness:
  "well_typed tok_acme
   \<and> generate_otpauth_uri tok_acme
       = Inr ''otpauth://totp/Acme%3Ajsmith?secret=SECRET123&issuer=Acme&digits=6&algorithm=SHA1''
   \<and> well_typed tok_no_issuer
   \<and> generate_otpauth_uri tok_no_issuer
       = Inr ''otpauth://totp/jsmith?secret=SECRET123&digits=8&algorithm=SHA1''"
  using generate_otpauth_uri_params [of tok_acme] generate_otpauth_uri_params [of tok_no_issuer]
  by code_simp

text \<open>
  C4, as the claim states it, fails for a falsy value that is present: with \<^verbatim>\<open>digits\<close> 0
  the default of \<^verbatim>\<open>token.get('digits', 6)\<close> does not apply, and the test \<^verbatim>\<open>if digits\<close>
  leaves the parameter out.
\<close>

theorem digits_zero_counterexample:
  "tok_zero_digits ''digits'' = Some (PInt 0)
   \<and> generate_otpauth_uri tok_zero_digits
       = Inr ''otpauth://totp/jsmith?secret=SECRET123&algorithm=SHA1''"
  by code_simp

text \<open>
  C4, amended. For a token of the data model without a \<^verbatim>\<open>digits\<close> field the value used is 6
  and the URI has the parameter \<^verbatim>\<open>digits=6\<close>, before \<^verbatim>\<open>algorithm=SHA1\<close>; when the field is
  there and 0, the URI has no digits parameter.
\<close>

theorem generate_otpauth_uri_digits:
  assumes "well_typed t"
  shows "(t ''digits'' = None \<longrightarrow>
            dict_get t ''digits'' (PInt 6) = PInt 6
            \<and> generate_otpauth_uri t =
                Inr (''otpauth://totp/'' @ url_quote (spec_label t) @ ''?''
                     @ str_join ''&'' (secret_params t @ issuer_params t
                                        @ [''digits=6'', ''algorithm=SHA1''])))
         \<and> (t ''digits'' = Some (PInt 0) \<longrightarrow>
              generate_otpauth_uri t =
                Inr (''otpauth://totp/'' @ url_quote (spec_label t) @ ''?''
                     @ str_join ''&'' (secret_params t @ issuer_params t @ [''algorithm=SHA1''])))"
proof (intro conjI impI)
  assume absent: "t ''digits'' = None"
  then show "dict_get t ''digits'' (PInt 6) = PInt 6" by (simp add: dict_get_def)
  from absent have "digits_params t = [''digits=6'']" and "int_printable (digits_value t)"
    by (simp_all add: digits_params_def digits_value_def show_int_6 int_printable_6)
  then show "generate_otpauth_uri t =
               Inr (''otpauth://totp/'' @ url_quote (spec_label t) @ ''?''
                    @ str_join ''&'' (secret_params t @ issuer_params t
                                       @ [''digits=6'', ''algorithm=SHA1'']))"
    using generate_otpauth_uri_well_typed [OF assms] by simp
next
  assume "t ''digits'' = Some (PInt 0)"
  then have "digits_params t = []" and "int_printable (digits_value t)"
    by (simp_all add: digits_params_def digits_value_def int_printable_0)
  then show "generate_otpauth_uri t =
               Inr (''otpauth://totp/'' @ url_quote (spec_label t) @ ''?''
                    @ str_join ''&'' (secret_params t @ issuer_params t @ [''algorithm=SHA1'']))"
    using generate_otpauth_uri_well_typed [OF assms] by simp
qed

theorem generate_otpauth_uri_digits_witness:
  "well_typed tok_no_digits \<and> tok_no_digits ''digits'' = None
   \<and> generate_otpauth_uri tok_no_digits
       = Inr ''otpauth://totp/jsmith?secret=SECRET123&digits=6&algorithm=SHA1''
   \<and> well_typed tok_zero_digits \<and> tok_zero_digits ''digits'' = Some (PInt 0)
   \<and> generate_otpauth_uri tok_zero_digits
       = Inr ''otpauth://totp/jsmith?secret=SECRET123&algorithm=SHA1''"
  using generate_otpauth_uri_digits [of tok_no_digits] generate_otpauth_uri_digits [of tok_zero_digits]
  by code_simp

text \<open>
  Outside the data model the builder does raise: a JSON null for the name is falsy, the
  cleaned name is empty, and \<^verbatim>\<open>name.strip()\<close> on \<^verbatim>\<open>None\<close> fails.
\<close>

lemma generate_otpauth_uri_null_name:
  "\<not> well_typed tok_null_name \<and> generate_otpauth_uri tok_null_name = Inl AttributeError"
  by code_simp

text \<open>
  C9, as the claim states it, fails: a token can have strings and an integer in its
  fields and make \<^verbatim>\<open>generate_otpauth_uri\<close> raise. With \<^verbatim>\<open>digits\<close> \<open>10\<^sup>4\<^sup>3\<^sup>0\<^sup>0\<close>, an integer of
  4301 digits, the f-string of line 85 raises \<^verbatim>\<open>ValueError\<close>.
\<close>

theorem generate_otpauth_uri_raises_counterexample:
  "well_typed tok_huge_digits
   \<and> tok_huge_digits ''digits'' = Some (PInt (10 ^ str_digits_limit))
   \<and> generate_otpauth_uri tok_huge_digits = Inl ValueError"
proof -
  have typed: "well_typed tok_huge_digits"
    by (simp add: well_typed_def tok_huge_digits_def str_or_absent_def int_or_absent_def)
  have digits: "tok_huge_digits ''digits'' = Some (PInt (10 ^ str_digits_limit))"
    by (simp add: tok_huge_digits_def)
  then have "digits_value tok_huge_digits = 10 ^ str_digits_limit"
    by (simp add: digits_value_def)
  then have "generate_otpauth_uri tok_huge_digits = Inl ValueError"
    using generate_otpauth_uri_well_typed [OF typed] not_int_printable_limit by simp
  then show ?thesis using typed digits by simp
qed

text \<open>
  C9, amended. For a token whose string fields are strings (text that encodes as UTF-8, as
  every string of the model does) or absent and whose \<^verbatim>\<open>digits\<close> is an integer of at most
  4300 decimal digits or absent, \<^verbatim>\<open>generate_otpauth_uri\<close> returns a URI and raises nothing.
  The list of parameters the code builds ends with \<^verbatim>\<open>algorithm=SHA1\<close>; with the secret
  absent it has no \<^verbatim>\<open>secret=\<close> parameter and with the issuer absent no \<^verbatim>\<open>issuer=\<close>
  parameter. (The field \<^verbatim>\<open>digits\<close> has a default, which C4 is about.)
\<close>

theorem generate_otpauth_uri_total:
  assumes "well_typed t" and "int_printable (digits_value t)"
  shows "\<exists>label ps.
           query_params (dict_get t ''decrypted_seed'' (PStr [])) (dict_get t ''issuer'' (PStr []))
             (dict_get t ''digits'' (PInt 6)) = Inr (ps @ [''algorithm=SHA1''])
           \<and> generate_otpauth_uri t
               = Inr (''otpauth://totp/'' @ url_quote label @ ''?''
                      @ str_join ''&'' (ps @ [''algorithm=SHA1'']))
           \<and> (t ''decrypted_seed'' = None \<longrightarrow> \<not> list_ex (\<lambda>p. startswith p ''secret='') ps)
           \<and> (t ''issuer'' = None \<longrightarrow> \<not> list_ex (\<lambda>p. startswith p ''issuer='') ps)"
proof -
  let ?ps = "secret_params t @ issuer_params t @ digits_params t"
  have "t ''decrypted_seed'' = None \<longrightarrow> \<not> list_ex (\<lambda>p. startswith p ''secret='') ?ps"
    by (simp add: secret_params_def issuer_params_def digits_params_def str_field_def
        startswith_def)
  moreover have "t ''issuer'' = None \<longrightarrow> \<not> list_ex (\<lambda>p. startswith p ''issuer='') ?ps"
    by (simp add: secret_params_def issuer_params_def digits_params_def str_field_def
        startswith_def)
  ultimately show ?thesis
    using query_params_well_typed [OF assms(1)] generate_otpauth_uri_well_typed [OF assms(1)]
      assms(2)
    by (intro exI [of _ "spec_label t"] exI [of _ ?ps]) simp
qed

theorem generate_otpauth_uri_total_witness:
  "well_typed tok_jsmith \<and> int_printable (digits_value tok_jsmith)
   \<and> tok_jsmith ''decrypted_seed'' = None \<and> tok_jsmith ''issuer'' = None
   \<and> generate_otpauth_uri tok_jsmith = Inr ''otpauth://totp/jsmith?digits=6&algorithm=SHA1''
   \<and> well_typed Map.empty \<and> int_printable (digits_value Map.empty)
   \<and> generate_otpauth_uri Map.empty = Inr ''otpauth://totp/?digits=6&algorithm=SHA1''"
proof -
  have typed: "well_typed tok_jsmith" and empty_typed: "well_typed Map.empty"
    by code_simp+
  have printable: "int_printable (digits_value tok_jsmith)"
    and empty_printable: "int_printable (digits_value Map.empty)"
    by code_simp+
  have uris: "tok_jsmith ''decrypted_seed'' = None \<and> tok_jsmith ''issuer'' = None
     \<and> generate_otpauth_uri tok_jsmith = Inr ''otpauth://totp/jsmith?digits=6&algorithm=SHA1''
     \<and> generate_otpauth_uri Map.empty = Inr ''otpauth://totp/?digits=6&algorithm=SHA1''"
    by code_simp
  show ?thesis
    using generate_otpauth_uri_total [OF typed printable]
      generate_otpauth_uri_total [OF empty_typed empty_printable]
      typed empty_typed printable empty_printable uris
    by blast
qed

section \<open>Interactive mode: proofs\<close>

text \<open>The name of a token of the data model, a string or \<^verbatim>\<open>None\<close>, has a text for the log.\<close>

lemma py_format_name:
  assumes "well_typed t"
  shows "\<exists>shown. py_format (dict_get t ''name'' PNone) = Inr shown"
  using well_typed_fields(1) [OF assms]
  by (auto simp: str_or_absent_def dict_get_def split: option.splits pyval.splits)

lemma prompt_issuer_interactive:
  assumes "well_typed t" and "stdin w = line # rest"
  shows "fst (prompt_issuer True t (PStr proposed) w)
           = Inr (if strip line = [] then PStr proposed else PStr (strip line))"
    and "stdin (snd (prompt_issuer True t (PStr proposed) w)) = rest"
proof -
  obtain shown where "py_format (dict_get t ''name'' PNone) = Inr shown"
    using py_format_name [OF assms(1)] by blast
  then show "fst (prompt_issuer True t (PStr proposed) w)
               = Inr (if strip line = [] then PStr proposed else PStr (strip line))"
    and "stdin (snd (prompt_issuer True t (PStr proposed) w)) = rest"
    using assms(2)
    by (simp_all add: prompt_issuer_def io_bind_def io_lift_def logger_def input_line_def
        io_return_def Let_def)
qed

lemma determine_issuer_well_typed:
  assumes "well_typed t"
  shows "determine_issuer interactive t w
           = prompt_issuer interactive t (PStr (spec_title_case (spec_resolve t))) w"
  by (simp add: determine_issuer_def io_bind_def io_lift_def resolve_issuer_well_typed [OF assms]
      title_case_issuer_str)

text \<open>
  C7, as the claim states it, fails. Line 153 tests \<^verbatim>\<open>interactive\<close> alone, so the token
  with the explicit issuer \<^verbatim>\<open>Acme\<close> is prompted as well: the operator's line is read. And the
  line is passed through \<^verbatim>\<open>strip()\<close> before it is looked at, so the line of one space, which
  is not empty, does not replace the issuer.
\<close>

theorem prompt_issuer_counterexample:
  "dict_get tok_explicit ''issuer'' PNone = PStr ''Acme''
   \<and> stdin (world_with Missing ['' '']) = ['' '']
   \<and> fst (determine_issuer True tok_explicit (world_with Missing ['' ''])) = Inr (PStr ''Acme'')
   \<and> stdin (snd (determine_issuer True tok_explicit (world_with Missing ['' '']))) = []"
  by code_simp

text \<open>
  C7, amended. In interactive mode, for a token of the data model that had no explicit
  issuer, the operator is asked: one line is read and trimmed; when nothing is left the
  proposed issuer (the title-cased result of the chain) stays, otherwise the trimmed line
  becomes the issuer as it is, not title-cased. Nothing is said here about tokens that
  have an explicit issuer.
\<close>

theorem determine_issuer_reply:
  assumes "well_typed t" and "str_field t ''issuer'' = []" and "stdin w = line # rest"
  shows "fst (determine_issuer True t w)
           = Inr (PStr (if strip line = [] then spec_title_case (spec_resolve t) else strip line))
         \<and> stdin (snd (determine_issuer True t w)) = rest"
  using prompt_issuer_interactive [OF assms(1) assms(3)]
  by (simp add: determine_issuer_well_typed [OF assms(1)])

theorem determine_issuer_reply_witness:
  "well_typed tok_jsmith \<and> str_field tok_jsmith ''issuer'' = []
   \<and> stdin (world_with Missing [''  my bank '', ''next'']) = [''  my bank '', ''next'']
   \<and> fst (determine_issuer True tok_jsmith (world_with Missing [''  my bank '', ''next'']))
       = Inr (PStr ''my bank'')
   \<and> stdin (snd (determine_issuer True tok_jsmith (world_with Missing [''  my bank '', ''next''])))
       = [''next'']
   \<and> fst (determine_issuer True tok_jsmith (world_with Missing [[], ''next'']))
       = Inr (PStr ''Jsmith'')"
  using determine_issuer_reply [of tok_jsmith "world_with Missing [''  my bank '', ''next'']"
      "''  my bank ''" "[''next'']"]
    determine_issuer_reply [of tok_jsmith "world_with Missing [[], ''next'']" "[]" "[''next'']"]
  by code_simp

section \<open>The batch driver: proofs\<close>

text \<open>
  C8. When the input file is missing, or is not valid JSON, or decodes to an object that
  has nothing truthy under the key \<^verbatim>\<open>decrypted_authenticator_tokens\<close> (no such key, or an
  empty list), \<^verbatim>\<open>convert_tokens\<close> returns normally, and the world it leaves differs from the
  one it found by one more log entry, of level ERROR: nothing is written and no line of
  input is read.
\<close>

theorem convert_tokens_no_tokens:
  assumes "files w input_file = Missing \<or> files w input_file = Invalid_JSON
           \<or> files w input_file = Decoded (Doc_object None)
           \<or> (\<exists>v. files w input_file = Decoded (Doc_object (Some v)) \<and> \<not> tokens_truthy v)"
  shows "\<exists>msg. convert_tokens input_file output_file interactive w
                 = (Inr (), w\<lparr>log := log w @ [(ERROR, msg)]\<rparr>)"
  using assms
  by (auto simp: convert_tokens_def convert_body_def io_bind_def io_lift_def load_json_def
      get_tokens_def handle_exception_def logger_def)

theorem convert_tokens_no_tokens_witness:
  "files (world_with Missing []) ''in.json'' = Missing
   \<and> convert_tokens ''in.json'' ''out.txt'' False (world_with Missing [])
       = (Inr (), (world_with Missing [])
                    \<lparr>log := [(ERROR, ''error: could not find '' @ squoted ''in.json'')]\<rparr>)
   \<and> convert_tokens ''in.json'' ''out.txt'' False (world_with Invalid_JSON [])
       = (Inr (), (world_with Invalid_JSON [])
                    \<lparr>log := [(ERROR, ''error: invalid JSON in '' @ squoted ''in.json''
                                      @ '': JSONDecodeError'')]\<rparr>)
   \<and> convert_tokens ''in.json'' ''out.txt'' False
         (world_with (Decoded (Doc_object (Some (Token_list [])))) [])
       = (Inr (), (world_with (Decoded (Doc_object (Some (Token_list [])))) [])
                    \<lparr>log := [(ERROR, ''No tokens found in the input file.'')]\<rparr>)"
  using convert_tokens_no_tokens [of "world_with Missing []" "''in.json''" "''out.txt''" False]
    convert_tokens_no_tokens [of "world_with Invalid_JSON []" "''in.json''" "''out.txt''" False]
    convert_tokens_no_tokens [of "world_with (Decoded (Doc_object (Some (Token_list [])))) []"
      "''in.json''" "''out.txt''" False]
  by (simp add: world_with_def convert_tokens_def convert_body_def io_bind_def io_lift_def
      load_json_def get_tokens_def handle_exception_def logger_def exception_name_def)

text \<open>
  A run that has tokens writes the URIs, joined by line feeds, and logs no error.
\<close>

lemma convert_tokens_writes:
  "fst (convert_tokens ''in.json'' ''out.txt'' False
          (world_with (Decoded (Doc_object (Some (Token_list [Token tok_acme, Token tok_no_issuer])))) []))
     = Inr ()
   \<and> written (snd (convert_tokens ''in.json'' ''out.txt'' False
          (world_with (Decoded (Doc_object (Some (Token_list [Token tok_acme, Token tok_no_issuer])))) [])))
     = [(''out.txt'',
         ''otpauth://totp/Acme%3Ajsmith?secret=SECRET123&issuer=Acme&digits=6&algorithm=SHA1''
         @ [CHR 0x0A]
         @ ''otpauth://totp/Jsmith%3Ajsmith?secret=SECRET123&issuer=Jsmith&digits=8&algorithm=SHA1'')]"
  by code_simp

text \<open>
  When the output path lies in a missing directory, \<^verbatim>\<open>open\<close> raises \<^verbatim>\<open>FileNotFoundError\<close>, the
  first \<^verbatim>\<open>except\<close> clause catches it, and the error logged names the input file.
\<close>

lemma convert_tokens_output_not_found:
  "fst (convert_tokens ''in.json'' ''dir/out.txt'' False
          ((world_with (Decoded (Doc_object (Some (Token_list [Token tok_acme])))) [])
             \<lparr>open_error := (\<lambda>path. Some FileNotFoundError)\<rparr>))
     = Inr ()
   \<and> written (snd (convert_tokens ''in.json'' ''dir/out.txt'' False
          ((world_with (Decoded (Doc_object (Some (Token_list [Token tok_acme])))) [])
             \<lparr>open_error := (\<lambda>path. Some FileNotFoundError)\<rparr>)))
     = []
   \<and> last (log (snd (convert_tokens ''in.json'' ''dir/out.txt'' False
          ((world_with (Decoded (Doc_object (Some (Token_list [Token tok_acme])))) [])
             \<lparr>open_error := (\<lambda>path. Some FileNotFoundError)\<rparr>))))
     = (ERROR, ''error: could not find '' @ squoted ''in.json'')"
  by code_simp

end
